theory Spec2Isabelle
  imports Main
begin

section \<open>External JWT authentication middleware (externalJWTAuth.ts)\<close>

text \<open>
  A shallow embedding of \<^verbatim>\<open>setupExternalJWTAuth\<close>. JavaScript strings are modelled as
  \<^typ>\<open>string\<close>; every \<^typ>\<open>char\<close> stands for one code unit in the range 0..255.
  \<^verbatim>\<open>undefined\<close> is \<^const>\<open>None\<close>.
\<close>

subsection \<open>Strings\<close>

text \<open>\<^verbatim>\<open>String.prototype.startsWith\<close>.\<close>

definition startsWith :: "string \<Rightarrow> string \<Rightarrow> bool" where
  "startsWith s p = (take (length p) s = p)"

text \<open>
  \<^verbatim>\<open>String.prototype.replace\<close> with a string pattern: only the first occurrence of the
  pattern is replaced. The replacement is inserted literally (the source only ever passes
  the empty replacement, so the dollar patterns of a replacement string never arise).
\<close>

fun replace :: "string \<Rightarrow> string \<Rightarrow> string \<Rightarrow> string" where
  "replace pat rep [] = (if pat = [] then rep else [])"
| "replace pat rep (c # cs) =
     (if startsWith (c # cs) pat then rep @ drop (length pat) (c # cs)
      else c # replace pat rep cs)"

text \<open>
  The white space and line terminator code units below 256: TAB, LF, VT, FF, CR, SP and
  NBSP.
\<close>

definition isWhiteSpace :: "char \<Rightarrow> bool" where
  "isWhiteSpace c = (of_char c \<in> {9, 10, 11, 12, 13, 32, 160 :: nat})"

text \<open>\<^verbatim>\<open>String.prototype.trimStart\<close>.\<close>

definition trimStart :: "string \<Rightarrow> string" where
  "trimStart s = dropWhile isWhiteSpace s"

text \<open>Decimal rendering of an array index, as property names of arrays and strings.\<close>

function showNat :: "nat \<Rightarrow> string" where
  "showNat n =
     (if n < 10 then [''0123456789'' ! n]
      else showNat (n div 10) @ [''0123456789'' ! (n mod 10)])"
  by pat_completeness auto
termination
  by (relation "measure id") auto

declare showNat.simps [simp del]

subsection \<open>Decoded claims\<close>

text \<open>
  The decoded payload is whatever \<^verbatim>\<open>JSON.parse\<close> produced. Numbers are integers here
  (the code compares claim values with strings only; the expiration claim is a number of
  seconds). An object is the list of its own entries in enumeration order.
\<close>

datatype json =
    JNull
  | JBool bool
  | JNum int
  | JStr string
  | JArr "json list"
  | JObj "(string \<times> json) list"

datatype exn =
    TypeError
  | ThrownResponse

text \<open>The entries of a list under their indices.\<close>

definition indexed :: "'a list \<Rightarrow> (string \<times> 'a) list" where
  "indexed xs = zip (map showNat [0..<length xs]) xs"

text \<open>
  \<^verbatim>\<open>Object.entries\<close>: throws a TypeError on \<^verbatim>\<open>null\<close>; a number or a boolean has no own
  enumerable properties; a string has one property per code unit and an array one per
  element, each named by its index.
\<close>

fun objectEntries :: "json \<Rightarrow> exn + (string \<times> json) list" where
  "objectEntries JNull = Inl TypeError"
| "objectEntries (JBool b) = Inr []"
| "objectEntries (JNum n) = Inr []"
| "objectEntries (JStr s) = Inr (indexed (map (\<lambda>c. JStr [c]) s))"
| "objectEntries (JArr xs) = Inr (indexed xs)"
| "objectEntries (JObj kvs) = Inr kvs"

subsection \<open>Configuration\<close>

text \<open>The values read with \<^verbatim>\<open>config.getEnv\<close>; the empty string means unset.\<close>

record config =
  jwtAuthHeader :: string
  jwtAuthCookie :: string
  jwksUri :: string
  jwtHeaderValuePrefix :: string
  jwtIssuer :: string
  jwtNamespace :: string
  jwtAllowedTenantKey :: string
  jwtAllowedTenant :: string

subsection \<open>isTenantAllowed\<close>

text \<open>The inner loop over the entries of the namespace claim.\<close>

fun tenantEntryFound :: "config \<Rightarrow> (string \<times> json) list \<Rightarrow> bool" where
  "tenantEntryFound cfg [] = False"
| "tenantEntryFound cfg ((kn, kv) # rest) =
     (if kn = jwtAllowedTenantKey cfg \<and> kv = JStr (jwtAllowedTenant cfg) then True
      else tenantEntryFound cfg rest)"

text \<open>The outer loop over the entries of the decoded token.\<close>

fun namespaceLoop :: "config \<Rightarrow> (string \<times> json) list \<Rightarrow> exn + bool" where
  "namespaceLoop cfg [] = Inr False"
| "namespaceLoop cfg ((k, v) # rest) =
     (if k = jwtNamespace cfg then
        (case objectEntries v of
           Inl e \<Rightarrow> Inl e
         | Inr es \<Rightarrow> if tenantEntryFound cfg es then Inr True else namespaceLoop cfg rest)
      else namespaceLoop cfg rest)"

definition isTenantAllowed :: "config \<Rightarrow> json \<Rightarrow> exn + bool" where
  "isTenantAllowed cfg decodedToken =
     (if jwtNamespace cfg = [] \<or> jwtAllowedTenantKey cfg = [] \<or> jwtAllowedTenant cfg = []
      then Inr True
      else (case objectEntries decodedToken of
              Inl e \<Rightarrow> Inl e
            | Inr es \<Rightarrow> namespaceLoop cfg es))"

subsection \<open>Prefix stripping\<close>

text \<open>Lines 66 to 68 of the request handler, as a function of the prefix and the token.\<close>

definition stripPrefix :: "string \<Rightarrow> string \<Rightarrow> string" where
  "stripPrefix prefix token =
     (if prefix \<noteq> [] \<and> startsWith token prefix
      then trimStart (replace (prefix @ '' '') [] token)
      else token)"

subsection \<open>Effects of a request\<close>

text \<open>
  What handling a request does, in order: handing the request on (\<^verbatim>\<open>next()\<close>), sending a
  rejection, calling \<^verbatim>\<open>jwt.verify\<close> on a token string, and fetching the remote key set for
  a key identifier. A run ends normally or with a thrown value that nothing in the handler
  catches.
\<close>

datatype event =
    Next
  | Rejection string
  | VerifyCall string
  | KeyFetch string

type_synonym result = "event list \<times> exn option"

text \<open>Sequential composition: what follows a throw does not run.\<close>

definition andThen :: "result \<Rightarrow> result \<Rightarrow> result" where
  "andThen r s = (case snd r of Some x \<Rightarrow> r | None \<Rightarrow> (fst r @ fst s, snd s))"

text \<open>
  Modelled from the spec: \<^verbatim>\<open>jwtAuthAuthorizationError\<close> lives in ResponseHelper, which is
  not among the sources. A rejection produces a response carrying the rejection reason.
\<close>

definition jwtAuthAuthorizationError :: "string \<Rightarrow> result" where
  "jwtAuthAuthorizationError msg = ([Rejection msg], None)"

text \<open>\<^verbatim>\<open>throw e\<close> where evaluating \<^verbatim>\<open>e\<close> has the effects of \<open>r\<close>.\<close>

definition throwResultOf :: "result \<Rightarrow> result" where
  "throwResultOf r = andThen r ([], Some ThrownResponse)"

subsection \<open>Requests and token extraction\<close>

text \<open>
  The request as the handler reads it: its URL, the header lookup \<^verbatim>\<open>req.header(name)\<close>
  and the cookie object, which is absent when no cookie parser ran.
\<close>

record request =
  url :: string
  header :: "string \<Rightarrow> string option"
  cookies :: "(string \<Rightarrow> string option) option"

text \<open>Lines 57 to 60: a non-empty header name is truthy.\<close>

definition extractToken :: "config \<Rightarrow> request \<Rightarrow> string option" where
  "extractToken cfg req =
     (if jwtAuthHeader cfg \<noteq> [] then header req (jwtAuthHeader cfg)
      else (case cookies req of None \<Rightarrow> None | Some c \<Rightarrow> c (jwtAuthCookie cfg)))"

subsection \<open>The libraries\<close>

type_synonym public_key = string

datatype signing_key = SigningKey public_key

fun getPublicKey :: "signing_key \<Rightarrow> public_key" where
  "getPublicKey (SigningKey pk) = pk"

record jwt_header =
  kid :: "string option"

record jwt =
  jwtHeader :: jwt_header
  payload :: json

datatype verify_error =
    KeyLookupError string
  | MalformedTokenError
  | ExpiredTokenError
  | IssuerMismatchError

text \<open>
  What the handler cannot see into: how a token string decodes (\<^const>\<open>None\<close> when it is
  structurally invalid), whether its signature verifies under a key, what the remote key
  set at a URI answers for a key identifier (an error message or a key), the current time
  in seconds, and the message of each verification error.
\<close>

record lib =
  decode :: "string \<Rightarrow> jwt option"
  signatureValid :: "string \<Rightarrow> public_key \<Rightarrow> bool"
  remoteKeySet :: "string \<Rightarrow> string \<Rightarrow> string + signing_key"
  clock :: int
  message :: "verify_error \<Rightarrow> string"

record verify_options =
  issuer :: "string option"
  ignoreExpiration :: bool

text \<open>Lines 81 to 84.\<close>

definition jwtVerifyOptions :: "config \<Rightarrow> verify_options" where
  "jwtVerifyOptions cfg =
     \<lparr>issuer = (if jwtIssuer cfg \<noteq> [] then Some (jwtIssuer cfg) else None),
      ignoreExpiration = False\<rparr>"

text \<open>
  Modelled from the spec: the key-set client of jwks-rsa is not among the sources. The
  SigningKeyCache wraps the remote fetch, keyed by key identifier, with an in-memory cache
  populated lazily on first use of each identifier and kept as long as the client lives.
\<close>

record jwks_client =
  caching :: bool
  clientUri :: string
  keyCache :: "string \<Rightarrow> signing_key option"

text \<open>
  Modelled from the spec: creating a client of the key set at a URI (jwks-rsa is not among
  the sources); its cache starts empty.
\<close>

definition jwks :: "bool \<Rightarrow> string \<Rightarrow> jwks_client" where
  "jwks c uri = \<lparr>caching = c, clientUri = uri, keyCache = Map.empty\<rparr>"

text \<open>
  Modelled from the spec: resolving a key identifier (jwks-rsa is not among the sources).
  A cached identifier is answered without a fetch; otherwise the key set is fetched, and a
  key that is found enters the cache.
\<close>

definition lookupSigningKey ::
  "lib \<Rightarrow> jwks_client \<Rightarrow> string \<Rightarrow> event list \<times> (string + signing_key) \<times> jwks_client" where
  "lookupSigningKey l client k =
     (case (if caching client then keyCache client k else None) of
        Some key \<Rightarrow> ([], Inr key, client)
      | None \<Rightarrow>
          (case remoteKeySet l (clientUri client) k of
             Inl e \<Rightarrow> ([KeyFetch k], Inl e, client)
           | Inr key \<Rightarrow>
               ([KeyFetch k], Inr key, client\<lparr>keyCache := (keyCache client)(k \<mapsto> key)\<rparr>)))"

text \<open>
  Modelled from the spec: \<^verbatim>\<open>jwkClient.getSigningKey(kid, callback)\<close> of jwks-rsa, which is
  not among the sources. The callback receives the error or the key. The updated client is
  not returned: the handler's client serves this one lookup and is dropped with the
  request.
\<close>

definition getSigningKey ::
  "lib \<Rightarrow> jwks_client \<Rightarrow> string \<Rightarrow> (string option \<Rightarrow> signing_key option \<Rightarrow> result) \<Rightarrow> result" where
  "getSigningKey l client k cb =
     (case lookupSigningKey l client k of
        (evs, Inl e, client') \<Rightarrow> andThen (evs, None) (cb (Some e) None)
      | (evs, Inr key, client') \<Rightarrow> andThen (evs, None) (cb None (Some key)))"

text \<open>A property of a decoded value; only an object has named claims.\<close>

fun getProp :: "json \<Rightarrow> string \<Rightarrow> json option" where
  "getProp (JObj kvs) name = map_of kvs name"
| "getProp v name = None"

text \<open>
  Modelled from the spec: the expiration check of \<^verbatim>\<open>jwt.verify\<close>; jsonwebtoken is not
  among the sources. Verification fails with an expired-token error if the expiration
  claim is in the past (the library compares \<open>now \<ge> exp\<close>, and skips the check only under the option
  \<^verbatim>\<open>ignoreExpiration\<close>), with an issuer mismatch if an issuer is configured and the
  token's issuer claim differs, and with a malformed-token error for a structurally
  invalid token or a bad signature; a missing key verifies no signature. On success it
  returns the full decoded claim set.
\<close>

definition expired :: "int \<Rightarrow> json \<Rightarrow> bool" where
  "expired now p = (case getProp p ''exp'' of Some (JNum e) \<Rightarrow> e \<le> now | _ \<Rightarrow> False)"

text \<open>
  Modelled from the spec: the issuer check of \<^verbatim>\<open>jwt.verify\<close>, which is not among the sources.
  It fails if an issuer is configured and the token's issuer claim differs.
\<close>

definition issuerMismatch :: "verify_options \<Rightarrow> json \<Rightarrow> bool" where
  "issuerMismatch opts p =
     (case issuer opts of None \<Rightarrow> False | Some i \<Rightarrow> getProp p ''iss'' \<noteq> Some (JStr i))"

text \<open>
  Modelled from the spec: verification of a decoded token against a key (jsonwebtoken is
  not among the sources): signature, then expiration, then issuer.
\<close>

definition verify ::
  "lib \<Rightarrow> string \<Rightarrow> jwt \<Rightarrow> public_key option \<Rightarrow> verify_options \<Rightarrow> verify_error + json" where
  "verify l token j key opts =
     (case key of
        None \<Rightarrow> Inl MalformedTokenError
      | Some k \<Rightarrow>
          if \<not> signatureValid l token k then Inl MalformedTokenError
          else if \<not> ignoreExpiration opts \<and> expired (clock l) (payload j)
            then Inl ExpiredTokenError
          else if issuerMismatch opts (payload j) then Inl IssuerMismatchError
          else Inr (payload j))"

text \<open>
  Modelled from the spec: the callback form \<^verbatim>\<open>jwt.verify(token, getKey, options, callback)\<close>.
  A structurally invalid token is reported at once; otherwise the key callback is asked for
  the key of the token's header, and each answer it gives is carried through: an error
  becomes a verification error, a key (or none) goes into verification. A throw of the key
  callback is not caught.
\<close>

definition jwt_verify ::
  "lib \<Rightarrow> string \<Rightarrow> (jwt_header \<Rightarrow> (string option \<Rightarrow> public_key option \<Rightarrow> result) \<Rightarrow> result)
     \<Rightarrow> verify_options \<Rightarrow> (verify_error + json \<Rightarrow> result) \<Rightarrow> result" where
  "jwt_verify l token getKeyFn opts callback =
     andThen ([VerifyCall token], None)
       (case decode l token of
          None \<Rightarrow> callback (Inl MalformedTokenError)
        | Some j \<Rightarrow>
            getKeyFn (jwtHeader j)
              (\<lambda>err key. case err of
                   Some e \<Rightarrow> callback (Inl (KeyLookupError e))
                 | None \<Rightarrow> callback (verify l token j key opts)))"

subsection \<open>The request handler\<close>

text \<open>
  Lines 71 to 79. A missing or empty key identifier is falsy: the rejection is sent and
  its return value thrown. Otherwise the client's answer is passed on: on an error the
  callback is called with the error, and then called again with no error and the public
  key of the (absent) key.
\<close>

definition getKey ::
  "lib \<Rightarrow> jwks_client \<Rightarrow> jwt_header \<Rightarrow> (string option \<Rightarrow> public_key option \<Rightarrow> result) \<Rightarrow> result" where
  "getKey l jwkClient hdr callbackFn =
     (case kid hdr of
        None \<Rightarrow> throwResultOf (jwtAuthAuthorizationError ''No JWT key found'')
      | Some k \<Rightarrow>
          if k = [] then throwResultOf (jwtAuthAuthorizationError ''No JWT key found'')
          else getSigningKey l jwkClient k
                 (\<lambda>error key.
                    andThen
                      (case error of Some e \<Rightarrow> callbackFn (Some e) None | None \<Rightarrow> ([], None))
                      (callbackFn None (map_option getPublicKey key))))"

text \<open>Lines 86 to 94: the callback given to \<^verbatim>\<open>jwt.verify\<close>.\<close>

definition verifyCallback :: "config \<Rightarrow> lib \<Rightarrow> verify_error + json \<Rightarrow> result" where
  "verifyCallback cfg l r =
     (case r of
        Inl error \<Rightarrow> jwtAuthAuthorizationError (''Invalid token: '' @ message l error)
      | Inr decoded \<Rightarrow>
          (case isTenantAllowed cfg decoded of
             Inl e \<Rightarrow> ([], Some e)
           | Inr allowed \<Rightarrow>
               if allowed then ([Next], None)
               else jwtAuthAuthorizationError ''Tenant not allowed''))"

text \<open>Lines 52 to 95. The exemption pattern is a predicate on the URL.\<close>

definition middleware :: "config \<Rightarrow> (string \<Rightarrow> bool) \<Rightarrow> lib \<Rightarrow> request \<Rightarrow> result" where
  "middleware cfg authIgnoreRegex l req =
     (if authIgnoreRegex (url req) then ([Next], None)
      else
        (case extractToken cfg req of
           None \<Rightarrow> jwtAuthAuthorizationError ''Missing token''
         | Some token \<Rightarrow>
             if token = [] then jwtAuthAuthorizationError ''Missing token''
             else
               jwt_verify l (stripPrefix (jwtHeaderValuePrefix cfg) token)
                 (getKey l (jwks True (jwksUri cfg)))
                 (jwtVerifyOptions cfg)
                 (verifyCallback cfg l)))"

text \<open>Lines 8 to 24: the start-up checks, then the handler is installed.\<close>

definition setupExternalJWTAuth ::
  "config \<Rightarrow> (string \<Rightarrow> bool) \<Rightarrow> string + (lib \<Rightarrow> request \<Rightarrow> result)" where
  "setupExternalJWTAuth cfg authIgnoreRegex =
     (if jwtAuthHeader cfg = [] \<and> jwtAuthCookie cfg = [] then
        Inl ''JWT auth is activated but no request header or cookie was defined. Please set one!''
      else if jwksUri cfg = [] then
        Inl ''JWT auth is activated but no JWK Set URI was defined. Please set one!''
      else Inr (middleware cfg authIgnoreRegex))"

text \<open>
  The events of one process serving requests one after the other. The handler keeps
  nothing between requests: every value it builds is local to the call.
\<close>

definition serve :: "(request \<Rightarrow> result) \<Rightarrow> request list \<Rightarrow> event list" where
  "serve handler reqs = concat (map (\<lambda>r. fst (handler r)) reqs)"

subsection \<open>Example data\<close>

definition exConfig :: config where
  "exConfig =
     \<lparr>jwtAuthHeader = ''Authorization'', jwtAuthCookie = [],
      jwksUri = ''https://idp.example/jwks'', jwtHeaderValuePrefix = ''Bearer'',
      jwtIssuer = [], jwtNamespace = ''ns'', jwtAllowedTenantKey = ''tenant'',
      jwtAllowedTenant = ''acme''\<rparr>"

definition exIgnore :: "string \<Rightarrow> bool" where
  "exIgnore u = startsWith u ''/healthz''"

definition exMessage :: "verify_error \<Rightarrow> string" where
  "exMessage err =
     (case err of
        KeyLookupError e \<Rightarrow> ''error in secret or public key callback: '' @ e
      | MalformedTokenError \<Rightarrow> ''jwt malformed''
      | ExpiredTokenError \<Rightarrow> ''jwt expired''
      | IssuerMismatchError \<Rightarrow> ''jwt issuer invalid'')"

text \<open>
  A library state in which the only well-formed token is \<open>h.p.s\<close>, with the given key
  identifier and payload, signed for the key \<open>pk1\<close>; the remote key set gives the same
  answer for every identifier; the time is 1000.
\<close>

definition exLib :: "string option \<Rightarrow> json \<Rightarrow> (string + signing_key) \<Rightarrow> lib" where
  "exLib k p answer =
     \<lparr>decode = (\<lambda>s. if s = ''h.p.s'' then Some \<lparr>jwtHeader = \<lparr>kid = k\<rparr>, payload = p\<rparr> else None),
      signatureValid = (\<lambda>s key. key = ''pk1''),
      remoteKeySet = (\<lambda>uri k'. answer),
      clock = 1000,
      message = exMessage\<rparr>"

definition exRequest :: "string option \<Rightarrow> request" where
  "exRequest v =
     \<lparr>url = ''/rest/workflows'',
      header = (\<lambda>n. if n = ''Authorization'' then v else None),
      cookies = None\<rparr>"

text \<open>A request without the header, carrying the token in the cookie \<open>jwt\<close>.\<close>

definition exCookieRequest :: request where
  "exCookieRequest =
     \<lparr>url = ''/rest/workflows'', header = (\<lambda>n. None),
      cookies = Some (\<lambda>n. if n = ''jwt'' then Some ''h.p.s'' else None)\<rparr>"

text \<open>A library state that finds every string of white space structurally invalid.\<close>

definition exStrictLib :: lib where
  "exStrictLib =
     \<lparr>decode = (\<lambda>s. if list_all isWhiteSpace s then None
                    else Some \<lparr>jwtHeader = \<lparr>kid = Some ''k1''\<rparr>, payload = JObj []\<rparr>),
      signatureValid = (\<lambda>s key. key = ''pk1''),
      remoteKeySet = (\<lambda>uri k'. Inr (SigningKey ''pk1'')),
      clock = 1000,
      message = exMessage\<rparr>"

section \<open>Properties\<close>

subsection \<open>Auxiliary facts\<close>

lemma andThen_simps [simp]:
  "andThen (es, None) s = (es @ fst s, snd s)"
  "andThen (es, Some x) s = (es, Some x)"
  by (simp_all add: andThen_def)

lemma startsWith_Nil [simp]: "startsWith s []"
  by (simp add: startsWith_def)

lemma startsWith_Cons [simp]:
  "startsWith (c # cs) (p # ps) = (c = p \<and> startsWith cs ps)"
  "startsWith [] (p # ps) = False"
  by (auto simp add: startsWith_def)

lemma startsWith_append: "startsWith s (p @ q) \<Longrightarrow> startsWith s p"
  by (metis startsWith_def append_eq_conv_conj length_append take_take min.absorb1 le_add1)

lemma replace_at_start:
  "pat \<noteq> [] \<Longrightarrow> startsWith s pat \<Longrightarrow> replace pat rep s = rep @ drop (length pat) s"
  by (cases s; cases pat) auto

lemma list_all_replace:
  "list_all P s \<Longrightarrow> list_all P (replace pat [] s)"
proof (induction s)
  case Nil
  then show ?case by simp
next
  case (Cons c cs)
  have "list_all P (drop (length pat) (c # cs))"
    using Cons.prems by (metis list_all_append append_take_drop_id)
  then show ?case using Cons by simp
qed

lemma list_all_trimStart: "list_all P s \<Longrightarrow> list_all P (trimStart s)"
  unfolding trimStart_def
  by (metis list_all_append takeWhile_dropWhile_id)

lemma list_all_stripPrefix:
  "list_all P token \<Longrightarrow> list_all P (stripPrefix prefix token)"
  by (simp add: stripPrefix_def list_all_replace list_all_trimStart)

lemmas handler_defs =
  middleware_def jwt_verify_def getKey_def getSigningKey_def lookupSigningKey_def jwks_def
  verifyCallback_def jwtAuthAuthorizationError_def throwResultOf_def jwtVerifyOptions_def

lemmas example_defs =
  exConfig_def exIgnore_def exLib_def exRequest_def exMessage_def extractToken_def
  stripPrefix_def trimStart_def isWhiteSpace_def verify_def expired_def issuerMismatch_def
  isTenantAllowed_def serve_def

subsection \<open>The tenant check\<close>

lemma tenantEntryFound_iff:
  "tenantEntryFound cfg es = ((jwtAllowedTenantKey cfg, JStr (jwtAllowedTenant cfg)) \<in> set es)"
  by (induction es) (auto split: if_splits)

lemma namespaceLoop_absent:
  "jwtNamespace cfg \<notin> fst ` set claims \<Longrightarrow> namespaceLoop cfg claims = Inr False"
  by (induction claims) auto

lemma namespaceLoop_objects:
  assumes "\<And>v. (jwtNamespace cfg, v) \<in> set claims \<Longrightarrow> \<exists>m. v = JObj m"
  shows "namespaceLoop cfg claims =
    Inr (\<exists>m. (jwtNamespace cfg, JObj m) \<in> set claims \<and>
             (jwtAllowedTenantKey cfg, JStr (jwtAllowedTenant cfg)) \<in> set m)"
  using assms
proof (induction claims)
  case Nil
  then show ?case by simp
next
  case (Cons kv claims)
  obtain k v where kv: "kv = (k, v)" by (cases kv)
  have ih: "namespaceLoop cfg claims =
    Inr (\<exists>m. (jwtNamespace cfg, JObj m) \<in> set claims \<and>
             (jwtAllowedTenantKey cfg, JStr (jwtAllowedTenant cfg)) \<in> set m)"
    using Cons by simp
  show ?case
  proof (cases "k = jwtNamespace cfg")
    case True
    then obtain m where m: "v = JObj m"
      using Cons.prems [of v] kv by auto
    show ?thesis
      using True m kv ih by (auto simp add: tenantEntryFound_iff)
  next
    case False
    then show ?thesis using kv ih by auto
  qed
qed

text \<open>
  On a claim set whose namespace claim, where present, is a mapping, the configured check
  finds exactly the entry the tenant configuration names; a claim set without the
  namespace claim is refused.
\<close>

lemma isTenantAllowed_objects:
  assumes "jwtNamespace cfg \<noteq> []" "jwtAllowedTenantKey cfg \<noteq> []" "jwtAllowedTenant cfg \<noteq> []"
    and "\<And>v. (jwtNamespace cfg, v) \<in> set claims \<Longrightarrow> \<exists>m. v = JObj m"
  shows "isTenantAllowed cfg (JObj claims) =
    Inr (\<exists>m. (jwtNamespace cfg, JObj m) \<in> set claims \<and>
             (jwtAllowedTenantKey cfg, JStr (jwtAllowedTenant cfg)) \<in> set m)"
  using assms by (simp add: isTenantAllowed_def namespaceLoop_objects)

lemma isTenantAllowed_absent:
  assumes "jwtNamespace cfg \<noteq> []" "jwtAllowedTenantKey cfg \<noteq> []" "jwtAllowedTenant cfg \<noteq> []"
    and "jwtNamespace cfg \<notin> fst ` set claims"
  shows "isTenantAllowed cfg (JObj claims) = Inr False"
  using assms by (simp add: isTenantAllowed_def namespaceLoop_absent)

text \<open>
  Claim C1. With the tenant check configured, the result is to be true exactly when the
  namespace claim is a mapping holding the tenant entry, and false when the namespace
  claim is not a mapping. The code does not look at the shape of the namespace claim: on
  \<^verbatim>\<open>{"ns": null}\<close> the enumeration of the claim's entries throws a TypeError instead of
  returning false, and a string or an array claim is enumerated under its indices, so
  with tenant key \<open>0\<close> the string \<open>acme\<close> is allowed for tenant \<open>a\<close> and the array
  \<^verbatim>\<open>["acme"]\<close> for tenant \<open>acme\<close>.
\<close>

theorem isTenantAllowed_non_mapping:
  "isTenantAllowed exConfig (JObj [(''ns'', JNull)]) = Inl TypeError \<and>
   isTenantAllowed (exConfig\<lparr>jwtAllowedTenantKey := ''0'', jwtAllowedTenant := ''a''\<rparr>)
     (JObj [(''ns'', JStr ''acme'')]) = Inr True \<and>
   isTenantAllowed (exConfig\<lparr>jwtAllowedTenantKey := ''0''\<rparr>)
     (JObj [(''ns'', JArr [JStr ''acme''])]) = Inr True"
  by code_simp

text \<open>
  Claim C6. If any of the namespace key, the tenant key or the allowed tenant is unset,
  the tenant check is disabled: it returns true on every decoded value, and the callback
  of a successful verification hands the request on whatever the claims are. So the gate
  admits every request that is not exempt and carries a valid token (a key identifier
  whose key is found, a signature that verifies under that key, not expired, no issuer
  mismatch), whatever its claims: the run verifies the token, fetches the key and calls
  \<^verbatim>\<open>next()\<close>, with no rejection.
\<close>

theorem tenant_check_disabled:
  assumes off: "jwtNamespace cfg = [] \<or> jwtAllowedTenantKey cfg = [] \<or> jwtAllowedTenant cfg = []"
  shows "isTenantAllowed cfg decoded = Inr True \<and>
         verifyCallback cfg l (Inr decoded) = ([Next], None) \<and>
         (\<not> authIgnoreRegex (url req) \<and>
          extractToken cfg req = Some raw \<and> raw \<noteq> [] \<and>
          decode l (stripPrefix (jwtHeaderValuePrefix cfg) raw) = Some j \<and>
          kid (jwtHeader j) = Some k \<and> k \<noteq> [] \<and>
          remoteKeySet l (jwksUri cfg) k = Inr sk \<and>
          signatureValid l (stripPrefix (jwtHeaderValuePrefix cfg) raw) (getPublicKey sk) \<and>
          \<not> expired (clock l) (payload j) \<and>
          \<not> issuerMismatch (jwtVerifyOptions cfg) (payload j) \<longrightarrow>
          middleware cfg authIgnoreRegex l req =
            ([VerifyCall (stripPrefix (jwtHeaderValuePrefix cfg) raw), KeyFetch k, Next], None))"
proof (intro conjI impI)
  show "isTenantAllowed cfg decoded = Inr True"
    using off by (simp add: isTenantAllowed_def)
  show cb: "verifyCallback cfg l (Inr decoded) = ([Next], None)" for decoded
    using off by (simp add: isTenantAllowed_def verifyCallback_def)
  assume h: "\<not> authIgnoreRegex (url req) \<and>
          extractToken cfg req = Some raw \<and> raw \<noteq> [] \<and>
          decode l (stripPrefix (jwtHeaderValuePrefix cfg) raw) = Some j \<and>
          kid (jwtHeader j) = Some k \<and> k \<noteq> [] \<and>
          remoteKeySet l (jwksUri cfg) k = Inr sk \<and>
          signatureValid l (stripPrefix (jwtHeaderValuePrefix cfg) raw) (getPublicKey sk) \<and>
          \<not> expired (clock l) (payload j) \<and>
          \<not> issuerMismatch (jwtVerifyOptions cfg) (payload j)"
  let ?tok = "stripPrefix (jwtHeaderValuePrefix cfg) raw"
  have v: "verify l ?tok j (Some (getPublicKey sk)) (jwtVerifyOptions cfg) = Inr (payload j)"
    using h by (simp add: verify_def)
  have "middleware cfg authIgnoreRegex l req =
      andThen ([VerifyCall ?tok], None)
        (andThen ([KeyFetch k], None)
           (verifyCallback cfg l (verify l ?tok j (Some (getPublicKey sk)) (jwtVerifyOptions cfg))))"
    using h
    by (simp add: middleware_def jwt_verify_def getKey_def getSigningKey_def
        lookupSigningKey_def jwks_def)
  then show "middleware cfg authIgnoreRegex l req = ([VerifyCall ?tok, KeyFetch k, Next], None)"
    using cb [of "payload j"] by (simp add: v)
qed

text \<open>
  With the allowed tenant unset, a valid token whose namespace claim is \<^verbatim>\<open>null\<close> is
  admitted by the gate.
\<close>

theorem tenant_check_disabled_witness:
  "isTenantAllowed (exConfig\<lparr>jwtAllowedTenant := []\<rparr>) (JObj [(''ns'', JNull)]) = Inr True \<and>
   verifyCallback (exConfig\<lparr>jwtAllowedTenant := []\<rparr>)
     (exLib (Some ''k1'') (JObj [(''ns'', JNull)]) (Inr (SigningKey ''pk1'')))
     (Inr (JObj [(''ns'', JNull)])) = ([Next], None) \<and>
   middleware (exConfig\<lparr>jwtAllowedTenant := []\<rparr>) exIgnore
     (exLib (Some ''k1'') (JObj [(''ns'', JNull)]) (Inr (SigningKey ''pk1'')))
     (exRequest (Some ''Bearer h.p.s'')) =
     ([VerifyCall ''h.p.s'', KeyFetch ''k1'', Next], None)"
  using tenant_check_disabled [of "exConfig\<lparr>jwtAllowedTenant := []\<rparr>"
      "JObj [(''ns'', JNull)]"
      "exLib (Some ''k1'') (JObj [(''ns'', JNull)]) (Inr (SigningKey ''pk1''))"
      exIgnore "exRequest (Some ''Bearer h.p.s'')" "''Bearer h.p.s''"
      "\<lparr>jwtHeader = \<lparr>kid = Some ''k1''\<rparr>, payload = JObj [(''ns'', JNull)]\<rparr>"
      "''k1''" "SigningKey ''pk1''"]
  by (simp add: exConfig_def exIgnore_def exRequest_def extractToken_def exLib_def
      stripPrefix_def trimStart_def isWhiteSpace_def expired_def issuerMismatch_def
      jwtVerifyOptions_def)

subsection \<open>Prefix stripping\<close>

text \<open>
  Claim C4, as amended. If the prefix is non-empty and the token starts with the prefix
  followed by one space, the result is the rest of the token after that space, with
  leading white space trimmed; if the prefix is empty or the token does not start with
  it, the token is returned unchanged. (A token that starts with the prefix with no space
  after it is not covered.)
\<close>

theorem stripPrefix_amended:
  "(prefix \<noteq> [] \<and> startsWith token (prefix @ '' '') \<longrightarrow>
      stripPrefix prefix token = trimStart (drop (length prefix + 1) token)) \<and>
   (prefix = [] \<or> \<not> startsWith token prefix \<longrightarrow> stripPrefix prefix token = token)"
proof (intro conjI impI)
  assume h: "prefix \<noteq> [] \<and> startsWith token (prefix @ '' '')"
  then have "startsWith token prefix"
    using startsWith_append by blast
  moreover have "replace (prefix @ '' '') [] token = drop (length prefix + 1) token"
    using h replace_at_start [of "prefix @ '' ''" token "[]"] by simp
  ultimately show "stripPrefix prefix token = trimStart (drop (length prefix + 1) token)"
    using h by (simp add: stripPrefix_def)
next
  assume "prefix = [] \<or> \<not> startsWith token prefix"
  then show "stripPrefix prefix token = token"
    by (auto simp add: stripPrefix_def)
qed

text \<open>The two examples of the claim: \<open>Bearer abc\<close> gives \<open>abc\<close>, and \<open>abc\<close> stays.\<close>

theorem stripPrefix_amended_witness:
  "stripPrefix ''Bearer'' ''Bearer abc'' = ''abc'' \<and> stripPrefix ''Bearer'' ''abc'' = ''abc''"
  using stripPrefix_amended [of "''Bearer''" "''Bearer abc''"]
    stripPrefix_amended [of "''Bearer''" "''abc''"]
  by (simp add: trimStart_def isWhiteSpace_def)

text \<open>
  The claim as stated fails: \<open>Bearerabc\<close> starts with the non-empty prefix \<open>Bearer\<close>, yet
  it is returned whole, which is neither the token without the prefix nor the token
  without the prefix and one more character.
\<close>

theorem stripPrefix_counterexample:
  "''Bearer'' \<noteq> [] \<and> startsWith ''Bearerabc'' ''Bearer'' \<and>
   stripPrefix ''Bearer'' ''Bearerabc'' = ''Bearerabc'' \<and>
   stripPrefix ''Bearer'' ''Bearerabc'' \<noteq> trimStart (drop (length ''Bearer'') ''Bearerabc'') \<and>
   stripPrefix ''Bearer'' ''Bearerabc'' \<noteq> trimStart (drop (length ''Bearer'' + 1) ''Bearerabc'')"
  by (simp add: stripPrefix_def trimStart_def isWhiteSpace_def)

subsection \<open>Token extraction\<close>

text \<open>
  Claim C9. When a header name is set, the token is what the header lookup gives, and the
  cookies make no difference (no fallback when the header is missing); only when no header
  name is set is the token read from the configured cookie.
\<close>

theorem extractToken_source:
  "(jwtAuthHeader cfg \<noteq> [] \<longrightarrow>
      extractToken cfg req = header req (jwtAuthHeader cfg) \<and>
      extractToken cfg (req\<lparr>cookies := ck\<rparr>) = extractToken cfg req) \<and>
   (jwtAuthHeader cfg = [] \<longrightarrow>
      extractToken cfg req =
        (case cookies req of None \<Rightarrow> None | Some c \<Rightarrow> c (jwtAuthCookie cfg)))"
  by (simp add: extractToken_def)

text \<open>
  With header and cookie names both set, a request that carries the token only in the
  cookie yields no token; with the header name unset the cookie's token is read.
\<close>

theorem extractToken_source_witness:
  "extractToken (exConfig\<lparr>jwtAuthCookie := ''jwt''\<rparr>) exCookieRequest = None \<and>
   extractToken (exConfig\<lparr>jwtAuthCookie := ''jwt''\<rparr>) (exCookieRequest\<lparr>cookies := None\<rparr>) =
     extractToken (exConfig\<lparr>jwtAuthCookie := ''jwt''\<rparr>) exCookieRequest \<and>
   extractToken (exConfig\<lparr>jwtAuthHeader := [], jwtAuthCookie := ''jwt''\<rparr>) exCookieRequest =
     Some ''h.p.s''"
  using extractToken_source [of "exConfig\<lparr>jwtAuthCookie := ''jwt''\<rparr>" exCookieRequest None]
    extractToken_source [of "exConfig\<lparr>jwtAuthHeader := [], jwtAuthCookie := ''jwt''\<rparr>"
      exCookieRequest None]
  by (simp add: exConfig_def exCookieRequest_def)

subsection \<open>The request handler\<close>

text \<open>
  Claim C7. A request that is not exempt and whose token source yields nothing or the
  empty string is rejected with exactly \<open>Missing token\<close>; that rejection is the run's only
  event, so no key is resolved and nothing is verified.
\<close>

theorem missing_token_rejected:
  "\<not> authIgnoreRegex (url req) \<Longrightarrow>
   extractToken cfg req = None \<or> extractToken cfg req = Some [] \<Longrightarrow>
   middleware cfg authIgnoreRegex l req = ([Rejection ''Missing token''], None)"
  by (auto simp add: middleware_def jwtAuthAuthorizationError_def)

theorem missing_token_rejected_witness:
  "middleware exConfig exIgnore
     (exLib (Some ''k1'') JNull (Inr (SigningKey ''pk1''))) (exRequest None) =
     ([Rejection ''Missing token''], None) \<and>
   middleware exConfig exIgnore
     (exLib (Some ''k1'') JNull (Inr (SigningKey ''pk1''))) (exRequest (Some [])) =
     ([Rejection ''Missing token''], None)"
  using missing_token_rejected [of exIgnore "exRequest None" exConfig
      "exLib (Some ''k1'') JNull (Inr (SigningKey ''pk1''))"]
    missing_token_rejected [of exIgnore "exRequest (Some [])" exConfig
      "exLib (Some ''k1'') JNull (Inr (SigningKey ''pk1''))"]
  by (simp add: exConfig_def exIgnore_def exRequest_def extractToken_def)

text \<open>
  Claim C10. A token of white space only is not a missing token: it goes through prefix
  stripping, which leaves a string of white space (possibly empty), into verification.
  Given that the library finds every such string structurally invalid, the request is
  rejected with \<open>Invalid token:\<close> and the detail of the malformed-token error.
\<close>

theorem whitespace_token_verified:
  assumes "\<not> authIgnoreRegex (url req)"
    and "extractToken cfg req = Some token"
    and "token \<noteq> []"
    and "list_all isWhiteSpace token"
    and "\<And>s. list_all isWhiteSpace s \<Longrightarrow> decode l s = None"
  shows "middleware cfg authIgnoreRegex l req =
           ([VerifyCall (stripPrefix (jwtHeaderValuePrefix cfg) token),
             Rejection (''Invalid token: '' @ message l MalformedTokenError)], None) \<and>
         middleware cfg authIgnoreRegex l req \<noteq> ([Rejection ''Missing token''], None) \<and>
         list_all isWhiteSpace (stripPrefix (jwtHeaderValuePrefix cfg) token)"
proof -
  have ws: "list_all isWhiteSpace (stripPrefix (jwtHeaderValuePrefix cfg) token)"
    using assms(4) by (rule list_all_stripPrefix)
  then have "decode l (stripPrefix (jwtHeaderValuePrefix cfg) token) = None"
    by (rule assms(5))
  then have "middleware cfg authIgnoreRegex l req =
           ([VerifyCall (stripPrefix (jwtHeaderValuePrefix cfg) token),
             Rejection (''Invalid token: '' @ message l MalformedTokenError)], None)"
    using assms(1-3)
    by (simp add: middleware_def jwt_verify_def verifyCallback_def jwtAuthAuthorizationError_def)
  then show ?thesis using ws by simp
qed

text \<open>A single space, under the prefix \<open>Bearer\<close> and under the prefix of one space.\<close>

theorem whitespace_token_verified_witness:
  "middleware exConfig exIgnore exStrictLib (exRequest (Some '' '')) =
     ([VerifyCall '' '', Rejection ''Invalid token: jwt malformed''], None) \<and>
   middleware (exConfig\<lparr>jwtHeaderValuePrefix := '' ''\<rparr>) exIgnore exStrictLib
     (exRequest (Some '' '')) =
     ([VerifyCall [], Rejection ''Invalid token: jwt malformed''], None)"
  using whitespace_token_verified [of exIgnore "exRequest (Some '' '')" exConfig "'' ''" exStrictLib]
    whitespace_token_verified [of exIgnore "exRequest (Some '' '')"
      "exConfig\<lparr>jwtHeaderValuePrefix := '' ''\<rparr>" "'' ''" exStrictLib]
  by (simp add: exConfig_def exIgnore_def exRequest_def extractToken_def exStrictLib_def
      exMessage_def stripPrefix_def trimStart_def isWhiteSpace_def)

subsection \<open>Expiration\<close>

lemma verify_expired:
  assumes "getProp (payload j) ''exp'' = Some (JNum e)" "e < clock l"
  shows "\<exists>err. verify l tok j key (jwtVerifyOptions cfg) = Inl err"
  using assms by (cases key) (simp_all add: verify_def jwtVerifyOptions_def expired_def)

lemma verifyCallback_error:
  "verifyCallback cfg l (Inl err) = ([Rejection (''Invalid token: '' @ message l err)], None)"
  by (simp add: verifyCallback_def jwtAuthAuthorizationError_def)

text \<open>
  Claim C5. For a token whose expiration claim lies in the past, verification under the
  options the handler builds fails for every key and every configuration, whatever the
  signature check says, and a request that is not exempt and carries such a token is
  never handed on: the run sends a rejection and does not call \<^verbatim>\<open>next()\<close>.
\<close>

theorem expired_token_rejected:
  assumes "\<not> authIgnoreRegex (url req)"
    and "extractToken cfg req = Some raw"
    and "raw \<noteq> []"
    and "decode l (stripPrefix (jwtHeaderValuePrefix cfg) raw) = Some j"
    and "getProp (payload j) ''exp'' = Some (JNum e)"
    and "e < clock l"
  shows "(\<forall>tok key. \<exists>err. verify l tok j key (jwtVerifyOptions cfg) = Inl err) \<and>
         Next \<notin> set (fst (middleware cfg authIgnoreRegex l req)) \<and>
         (\<exists>m. Rejection m \<in> set (fst (middleware cfg authIgnoreRegex l req)))"
proof -
  let ?tok = "stripPrefix (jwtHeaderValuePrefix cfg) raw"
  let ?cb = "\<lambda>err key. case err of
                 Some e \<Rightarrow> verifyCallback cfg l (Inl (KeyLookupError e))
               | None \<Rightarrow> verifyCallback cfg l (verify l ?tok j key (jwtVerifyOptions cfg))"
  have fails: "\<And>tok key. \<exists>err. verify l tok j key (jwtVerifyOptions cfg) = Inl err"
    using assms(5,6) by (rule verify_expired)
  have cb: "\<And>err key. \<exists>m. ?cb err key = ([Rejection m], None)"
  proof -
    fix err :: "string option" and key :: "public_key option"
    obtain ve where "verify l ?tok j key (jwtVerifyOptions cfg) = Inl ve"
      using fails by blast
    then show "\<exists>m. ?cb err key = ([Rejection m], None)"
      by (cases err) (simp_all add: verifyCallback_error)
  qed
  have mw: "middleware cfg authIgnoreRegex l req =
      andThen ([VerifyCall ?tok], None) (getKey l (jwks True (jwksUri cfg)) (jwtHeader j) ?cb)"
    using assms(1-4) by (simp add: middleware_def jwt_verify_def)
  have gk: "Next \<notin> set (fst (getKey l (jwks True (jwksUri cfg)) (jwtHeader j) ?cb)) \<and>
      (\<exists>m. Rejection m \<in> set (fst (getKey l (jwks True (jwksUri cfg)) (jwtHeader j) ?cb)))"
  proof (cases "kid (jwtHeader j)")
    case None
    then show ?thesis
      by (simp add: getKey_def throwResultOf_def jwtAuthAuthorizationError_def)
  next
    case (Some k)
    show ?thesis
    proof (cases "k = []")
      case True
      then show ?thesis using Some
        by (simp add: getKey_def throwResultOf_def jwtAuthAuthorizationError_def)
    next
      case False
      obtain m1 where m1: "?cb None None = ([Rejection m1], None)"
        using cb by blast
      show ?thesis
      proof (cases "remoteKeySet l (jwksUri cfg) k")
        case (Inl msg)
        obtain m2 where m2: "?cb (Some msg) None = ([Rejection m2], None)"
          using cb by blast
        have "getKey l (jwks True (jwksUri cfg)) (jwtHeader j) ?cb =
                ([KeyFetch k, Rejection m2, Rejection m1], None)"
          using Some False Inl m1 m2
          by (simp add: getKey_def getSigningKey_def lookupSigningKey_def jwks_def)
        then show ?thesis by auto
      next
        case (Inr sk)
        obtain m3 where m3: "?cb None (Some (getPublicKey sk)) = ([Rejection m3], None)"
          using cb by blast
        have "getKey l (jwks True (jwksUri cfg)) (jwtHeader j) ?cb =
                ([KeyFetch k, Rejection m3], None)"
          using Some False Inr m3
          by (simp add: getKey_def getSigningKey_def lookupSigningKey_def jwks_def)
        then show ?thesis by simp
      qed
    qed
  qed
  show ?thesis
    using fails gk by (simp add: mw)
qed

text \<open>A correctly signed token that expired at 999, seen at time 1000.\<close>

theorem expired_token_rejected_witness:
  "(\<forall>tok key. \<exists>err.
      verify (exLib (Some ''k1'') (JObj [(''exp'', JNum 999)]) (Inr (SigningKey ''pk1''))) tok
        \<lparr>jwtHeader = \<lparr>kid = Some ''k1''\<rparr>, payload = JObj [(''exp'', JNum 999)]\<rparr> key
        (jwtVerifyOptions exConfig) = Inl err) \<and>
   Next \<notin> set (fst (middleware exConfig exIgnore
      (exLib (Some ''k1'') (JObj [(''exp'', JNum 999)]) (Inr (SigningKey ''pk1'')))
      (exRequest (Some ''Bearer h.p.s'')))) \<and>
   (\<exists>m. Rejection m \<in> set (fst (middleware exConfig exIgnore
      (exLib (Some ''k1'') (JObj [(''exp'', JNum 999)]) (Inr (SigningKey ''pk1'')))
      (exRequest (Some ''Bearer h.p.s'')))))"
  using expired_token_rejected [of exIgnore "exRequest (Some ''Bearer h.p.s'')" exConfig
      "''Bearer h.p.s''"
      "exLib (Some ''k1'') (JObj [(''exp'', JNum 999)]) (Inr (SigningKey ''pk1''))"
      "\<lparr>jwtHeader = \<lparr>kid = Some ''k1''\<rparr>, payload = JObj [(''exp'', JNum 999)]\<rparr>" 999]
  by (simp add: exConfig_def exIgnore_def exRequest_def extractToken_def exLib_def
      stripPrefix_def trimStart_def isWhiteSpace_def)

subsection \<open>Key resolution\<close>

text \<open>A client that is kept answers the second lookup of a key identifier from its cache.\<close>

lemma lookupSigningKey_cached:
  assumes "remoteKeySet l uri k = Inr key"
  shows "lookupSigningKey l (jwks True uri) k =
           ([KeyFetch k], Inr key, (jwks True uri)\<lparr>keyCache := [k \<mapsto> key]\<rparr>) \<and>
         lookupSigningKey l ((jwks True uri)\<lparr>keyCache := [k \<mapsto> key]\<rparr>) k =
           ([], Inr key, (jwks True uri)\<lparr>keyCache := [k \<mapsto> key]\<rparr>)"
  using assms by (simp add: lookupSigningKey_def jwks_def)

text \<open>
  Claim C2. Repeated resolutions of one key identifier are to cost at most one fetch per
  process. The handler builds its key-set client anew for every request (line 70), so the
  cache it asks for never outlives the request: two requests in a row with the same valid
  token fetch the key set for \<open>k1\<close> twice.
\<close>

theorem same_kid_fetched_again:
  "serve (middleware exConfig exIgnore
       (exLib (Some ''k1'') (JObj [(''ns'', JObj [(''tenant'', JStr ''acme'')])])
          (Inr (SigningKey ''pk1''))))
     [exRequest (Some ''Bearer h.p.s''), exRequest (Some ''Bearer h.p.s'')] =
   [VerifyCall ''h.p.s'', KeyFetch ''k1'', Next, VerifyCall ''h.p.s'', KeyFetch ''k1'', Next]"
  by (simp add: handler_defs example_defs)

text \<open>On a failed lookup the key callback answers twice, whatever the callback is.\<close>

lemma getKey_lookup_error:
  assumes "kid hdr = Some k" "k \<noteq> []" "remoteKeySet l uri k = Inl e"
  shows "getKey l (jwks True uri) hdr cb =
           andThen ([KeyFetch k], None) (andThen (cb (Some e) None) (cb None None))"
  using assms by (simp add: getKey_def getSigningKey_def lookupSigningKey_def jwks_def)

text \<open>
  Claim C3. The first failing stage is to end the pipeline with exactly one rejection
  reason, and a failed key lookup is not to continue into verification without a key.
  In \<^verbatim>\<open>getKey\<close> the error branch does not return: after the callback has been given the
  error it is called again with no key. A request whose key lookup fails is rejected
  twice, the second time by the verification of the token against an absent key.
\<close>

theorem key_lookup_failure_rejects_twice:
  "getKey (exLib k p (Inl ''fetch failed'')) (jwks True uri) \<lparr>kid = Some ''k1''\<rparr> cb =
     andThen ([KeyFetch ''k1''], None)
       (andThen (cb (Some ''fetch failed'') None) (cb None None)) \<and>
   middleware exConfig exIgnore
     (exLib (Some ''k1'') (JObj [(''ns'', JObj [(''tenant'', JStr ''acme'')])])
        (Inl ''fetch failed''))
     (exRequest (Some ''Bearer h.p.s'')) =
   ([VerifyCall ''h.p.s'', KeyFetch ''k1'',
     Rejection ''Invalid token: error in secret or public key callback: fetch failed'',
     Rejection ''Invalid token: jwt malformed''], None)"
  by (simp add: handler_defs example_defs)

text \<open>
  Claim C8. Every failure of a request is to end in a rejection response, with no
  exception leaving the handler. For a token whose header has no key identifier,
  \<^verbatim>\<open>getKey\<close> sends the rejection and then throws its return value; nothing catches it, so
  the run of the handler ends with the thrown value.
\<close>

theorem missing_kid_throws:
  "getKey l client \<lparr>kid = None\<rparr> cb = ([Rejection ''No JWT key found''], Some ThrownResponse) \<and>
   middleware exConfig exIgnore
     (exLib None (JObj [(''ns'', JObj [(''tenant'', JStr ''acme'')])])
        (Inr (SigningKey ''pk1'')))
     (exRequest (Some ''Bearer h.p.s'')) =
   ([VerifyCall ''h.p.s'', Rejection ''No JWT key found''], Some ThrownResponse)"
  by (simp add: handler_defs example_defs)

text \<open>
  The other exception that leaves the handler: the TypeError of the tenant check on a
  namespace claim that is \<^verbatim>\<open>null\<close>, raised inside the verification callback.
\<close>

lemma null_namespace_throws:
  "middleware exConfig exIgnore
     (exLib (Some ''k1'') (JObj [(''ns'', JNull)]) (Inr (SigningKey ''pk1'')))
     (exRequest (Some ''Bearer h.p.s'')) =
   ([VerifyCall ''h.p.s'', KeyFetch ''k1''], Some TypeError)"
  by (simp add: handler_defs example_defs)

end
